theory Spec2Isabelle
  imports
    Main
    "HOL-Library.AList"
    "HOL-Library.Char_ord"
    "HOL-Library.List_Lexorder"
    "HOL-Library.Product_Lexorder"
begin

section \<open>Python values and errors\<close>

text \<open>
  The values that travel through the helpers: arguments of \<^verbatim>\<open>read_table\<close>, cells of
  a table, fields of a record. \<open>PObj s\<close> stands for any object that \<^verbatim>\<open>json.dumps\<close>
  rejects (a custom object, bytes, a datetime); \<open>s\<close> is what \<^verbatim>\<open>str\<close> returns for it.
  Floats and nested containers are left out.
\<close>

datatype pyval = PNone | PBool bool | PInt int | PStr string | PObj string

text \<open>Python truthiness, as \<^verbatim>\<open>if v:\<close> and \<^verbatim>\<open>a and b\<close> test it.\<close>

fun truthy :: "pyval \<Rightarrow> bool" where
  "truthy PNone = False"
| "truthy (PBool b) = b"
| "truthy (PInt n) = (n \<noteq> 0)"
| "truthy (PStr s) = (s \<noteq> [])"
| "truthy (PObj s) = True"

text \<open>Every exception of the modelled code is a value; \<open>Inl\<close> carries it.\<close>

datatype error =
    NoSuchTableError
  | AttributeError
  | KeyError
  | UnboundLocalError
  | NameError
  | TypeError
  | ValueError
  | ZeroDivisionError
  | CompileError
  | DatabaseError
  | InvalidRequestError

definition bind_e :: "error + 'a \<Rightarrow> ('a \<Rightarrow> error + 'b) \<Rightarrow> error + 'b" where
  "bind_e m f = (case m of Inl e \<Rightarrow> Inl e | Inr x \<Rightarrow> f x)"

text \<open>A list comprehension whose element expression may raise: the first error wins.\<close>

fun map_e :: "('a \<Rightarrow> error + 'b) \<Rightarrow> 'a list \<Rightarrow> error + 'b list" where
  "map_e f [] = Inr []"
| "map_e f (x # xs) = bind_e (f x) (\<lambda>y. bind_e (map_e f xs) (\<lambda>ys. Inr (y # ys)))"

section \<open>The store: reflected tables and the expression language\<close>

type_synonym row = "string \<Rightarrow> pyval"

record table =
  tbl_columns :: "string list"
  tbl_rows :: "row list"

type_synonym database = "string \<rightharpoonup> table"

text \<open>\<^verbatim>\<open>tbl.c[name]\<close> raises KeyError and \<^verbatim>\<open>getattr(tbl.c, name)\<close> raises
  AttributeError when the table has no such column.\<close>

definition c_getitem :: "table \<Rightarrow> string \<Rightarrow> error + string" where
  "c_getitem tbl name = (if name \<in> set (tbl_columns tbl) then Inr name else Inl KeyError)"

definition c_getattr :: "table \<Rightarrow> string \<Rightarrow> error + string" where
  "c_getattr tbl name = (if name \<in> set (tbl_columns tbl) then Inr name else Inl AttributeError)"

text \<open>
  The column expressions the code builds: \<^verbatim>\<open>between\<close>, \<^verbatim>\<open>>=\<close>, \<^verbatim>\<open><=\<close>,
  \<^verbatim>\<open>>\<close>, \<^verbatim>\<open>== None\<close>, \<^verbatim>\<open>is_not(None)\<close>, \<^verbatim>\<open>==\<close>, \<^verbatim>\<open>in_\<close>, and the connectives
  \<^verbatim>\<open>and_\<close>, \<^verbatim>\<open>or_\<close>, \<^verbatim>\<open>not_\<close> of the expression language.
\<close>

datatype expr =
    Between string pyval pyval
  | Ge string pyval
  | Le string pyval
  | Gt string pyval
  | IsNull string
  | IsNotNull string
  | Eq string pyval
  | InList string "pyval list"
  | SqlAnd "expr list"
  | SqlOr "expr list"
  | SqlNot expr

text \<open>\<^verbatim>\<open>column == value\<close>: a comparison with \<^verbatim>\<open>None\<close> is rendered \<^verbatim>\<open>IS NULL\<close>.\<close>

definition col_eq :: "string \<Rightarrow> pyval \<Rightarrow> expr" where
  "col_eq col v = (if v = PNone then IsNull col else Eq col v)"

text \<open>\<^verbatim>\<open>column.is_not(None)\<close>.\<close>

definition col_is_not_none :: "string \<Rightarrow> expr" where
  "col_is_not_none col = IsNotNull col"

subsection \<open>Three-valued evaluation\<close>

text \<open>
  A condition evaluates to true, false or unknown (\<open>None\<close>) on a row. A comparison with
  NULL is unknown; so is, in this model, a comparison of values of different kinds, which
  a typed column excludes.
\<close>

fun sql_lt :: "pyval \<Rightarrow> pyval \<Rightarrow> bool option" where
  "sql_lt (PInt a) (PInt b) = Some (a < b)"
| "sql_lt (PStr a) (PStr b) = Some (a < b)"
| "sql_lt (PBool a) (PBool b) = Some (a < b)"
| "sql_lt _ _ = None"

fun sql_eq :: "pyval \<Rightarrow> pyval \<Rightarrow> bool option" where
  "sql_eq (PInt a) (PInt b) = Some (a = b)"
| "sql_eq (PStr a) (PStr b) = Some (a = b)"
| "sql_eq (PBool a) (PBool b) = Some (a = b)"
| "sql_eq _ _ = None"

fun sql_le :: "pyval \<Rightarrow> pyval \<Rightarrow> bool option" where
  "sql_le (PInt a) (PInt b) = Some (a \<le> b)"
| "sql_le (PStr a) (PStr b) = Some (a \<le> b)"
| "sql_le (PBool a) (PBool b) = Some (a \<le> b)"
| "sql_le _ _ = None"

fun sql_and :: "bool option \<Rightarrow> bool option \<Rightarrow> bool option" where
  "sql_and (Some False) _ = Some False"
| "sql_and _ (Some False) = Some False"
| "sql_and (Some True) (Some True) = Some True"
| "sql_and _ _ = None"

fun sql_or :: "bool option \<Rightarrow> bool option \<Rightarrow> bool option" where
  "sql_or (Some True) _ = Some True"
| "sql_or _ (Some True) = Some True"
| "sql_or (Some False) (Some False) = Some False"
| "sql_or _ _ = None"

fun eval :: "expr \<Rightarrow> row \<Rightarrow> bool option" where
  "eval (Between col a b) r = sql_and (sql_le a (r col)) (sql_le (r col) b)"
| "eval (Ge col v) r = sql_le v (r col)"
| "eval (Le col v) r = sql_le (r col) v"
| "eval (Gt col v) r = sql_lt v (r col)"
| "eval (IsNull col) r = Some (r col = PNone)"
| "eval (IsNotNull col) r = Some (r col \<noteq> PNone)"
| "eval (Eq col v) r = sql_eq (r col) v"
| "eval (InList col vs) r = foldr (\<lambda>v acc. sql_or (sql_eq (r col) v) acc) vs (Some False)"
| "eval (SqlAnd es) r = foldr (\<lambda>e acc. sql_and (eval e r) acc) es (Some True)"
| "eval (SqlOr es) r = foldr (\<lambda>e acc. sql_or (eval e r) acc) es (Some False)"
| "eval (SqlNot e) r = map_option (\<lambda>b. \<not> b) (eval e r)"

subsection \<open>Select statements and their execution\<close>

record query =
  q_columns :: "string list"
  q_where :: "expr option"
  q_order_by :: "(string \<times> bool) option"
  q_limit :: "int option"

text \<open>\<^verbatim>\<open>sql.select(*columns)\<close>, \<^verbatim>\<open>.where(e)\<close>, \<^verbatim>\<open>.order_by(col)\<close> (the flag is
  False for \<^verbatim>\<open>sql.desc(col)\<close>) and \<^verbatim>\<open>.limit(n)\<close>; each returns a new statement.\<close>

definition select :: "string list \<Rightarrow> query" where
  "select cols = \<lparr>q_columns = cols, q_where = None, q_order_by = None, q_limit = None\<rparr>"

definition stmt_where :: "query \<Rightarrow> expr \<Rightarrow> query" where
  "stmt_where q e =
     q\<lparr>q_where := (case q_where q of None \<Rightarrow> Some e | Some w \<Rightarrow> Some (SqlAnd [w, e]))\<rparr>"

definition stmt_order_by :: "query \<Rightarrow> string \<Rightarrow> bool \<Rightarrow> query" where
  "stmt_order_by q col asc = q\<lparr>q_order_by := Some (col, asc)\<rparr>"

definition stmt_limit :: "query \<Rightarrow> int \<Rightarrow> query" where
  "stmt_limit q n = q\<lparr>q_limit := Some n\<rparr>"

text \<open>
  The position of a value in the store's sort order: NULL sorts after every other value
  ascending, hence first descending.
\<close>

fun sort_pos :: "pyval \<Rightarrow> nat \<times> int \<times> string" where
  "sort_pos (PBool b) = (0, (if b then 1 else 0), [])"
| "sort_pos (PInt n) = (1, n, [])"
| "sort_pos (PStr s) = (2, 0, s)"
| "sort_pos (PObj s) = (3, 0, s)"
| "sort_pos PNone = (4, 0, [])"

definition filter_rows :: "expr option \<Rightarrow> row list \<Rightarrow> row list" where
  "filter_rows w rs =
     (case w of None \<Rightarrow> rs | Some e \<Rightarrow> filter (\<lambda>r. eval e r = Some True) rs)"

definition order_rows :: "(string \<times> bool) option \<Rightarrow> row list \<Rightarrow> row list" where
  "order_rows ob rs =
     (case ob of
        None \<Rightarrow> rs
      | Some (col, asc) \<Rightarrow>
          if asc then sort_key (\<lambda>r. sort_pos (r col)) rs
          else rev (sort_key (\<lambda>r. sort_pos (r col)) rs))"

definition limit_rows :: "int option \<Rightarrow> row list \<Rightarrow> row list" where
  "limit_rows l rs = (case l of None \<Rightarrow> rs | Some n \<Rightarrow> take (nat n) rs)"

text \<open>
  The store runs a statement: it keeps the rows on which the WHERE clause is true, sorts
  them, and cuts the result at the limit. A negative limit is an error of the store.
  Without an ordering the rows come in table order; rows that sort alike keep their
  relative order ascending and reverse it descending (the store leaves both open).
\<close>

definition execute_select :: "table \<Rightarrow> query \<Rightarrow> error + row list" where
  "execute_select tbl q =
     (if (case q_limit q of None \<Rightarrow> False | Some n \<Rightarrow> n < 0) then Inl DatabaseError
      else Inr (limit_rows (q_limit q)
                 (order_rows (q_order_by q)
                   (filter_rows (q_where q) (tbl_rows tbl)))))"

text \<open>The tabular result: the selected columns in the order given, one value list per row.\<close>

record dataframe =
  df_columns :: "string list"
  df_rows :: "pyval list list"

definition project :: "string list \<Rightarrow> row \<Rightarrow> pyval list" where
  "project cols r = map r cols"

definition read_sql :: "table \<Rightarrow> query \<Rightarrow> error + dataframe" where
  "read_sql tbl q =
     bind_e (execute_select tbl q)
       (\<lambda>rs. Inr \<lparr>df_columns = q_columns q, df_rows = map (project (q_columns q)) rs\<rparr>)"

section \<open>read_table\<close>

record read_args =
  table_name :: string
  columns :: "string list option"
  order_by_col :: "string option"
  order_by_asc :: bool
  after_last_col :: "string option"
  after_val :: pyval
  null_cols :: "string list option"
  non_null_cols :: "string list option"
  equals_col :: "string option"
  equals_val :: pyval
  equals_dct :: "(string \<times> pyval) list option"
  col_in_arr :: "(string \<times> pyval list) option"
  between_col :: "string option"
  between_arr :: "pyval list option"
  limit :: "int option"

text \<open>The defaults of the signature: every directive absent, \<^verbatim>\<open>limit=10000\<close>.\<close>

definition default_args :: "string \<Rightarrow> read_args" where
  "default_args name =
     \<lparr>table_name = name, columns = None, order_by_col = None, order_by_asc = True,
      after_last_col = None, after_val = PNone, null_cols = None, non_null_cols = None,
      equals_col = None, equals_val = PNone, equals_dct = None, col_in_arr = None,
      between_col = None, between_arr = None, limit = Some 10000\<rparr>"

text \<open>
  Each block below is one \<^verbatim>\<open>if\<close> statement of the body; its value is the list that
  the statement appends to \<^verbatim>\<open>conditions\<close> (\<open>[]\<close> when the statement is skipped).

  Lines 205-213. When the guard holds and neither bound is truthy, no branch assigns
  \<^verbatim>\<open>conditions_between\<close> and line 213 raises UnboundLocalError.
\<close>

definition between_block :: "table \<Rightarrow> read_args \<Rightarrow> error + expr list" where
  "between_block tbl a =
     (case (between_col a, between_arr a) of
        (Some bc, Some arr) \<Rightarrow>
          if bc \<noteq> [] \<and> arr \<noteq> [] \<and> length arr = 2 then
            (let start_date = arr ! 0; end_date = arr ! 1 in
             if truthy start_date \<and> truthy end_date then
               bind_e (c_getitem tbl bc) (\<lambda>col. Inr [Between col start_date end_date])
             else if truthy start_date then
               bind_e (c_getitem tbl bc) (\<lambda>col. Inr [Ge col start_date])
             else if truthy end_date then
               bind_e (c_getitem tbl bc) (\<lambda>col. Inr [Le col end_date])
             else Inl UnboundLocalError)
          else Inr []
      | _ \<Rightarrow> Inr [])"

text \<open>Lines 214-221. The bare \<^verbatim>\<open>except\<close> swallows whatever the \<^verbatim>\<open>try\<close> body raises.\<close>

definition after_block :: "table \<Rightarrow> read_args \<Rightarrow> expr list" where
  "after_block tbl a =
     (case after_last_col a of
        None \<Rightarrow> []
      | Some c \<Rightarrow>
          (case bind_e (c_getitem tbl c) (\<lambda>col. Inr [Gt col (after_val a)]) of
             Inl _ \<Rightarrow> []
           | Inr conditions_after_last_col \<Rightarrow> conditions_after_last_col))"

text \<open>Lines 222-228. Both comprehensions run over \<^verbatim>\<open>columns\<close>, the projection list.\<close>

definition null_block :: "table \<Rightarrow> string list \<Rightarrow> read_args \<Rightarrow> error + expr list" where
  "null_block tbl cols a =
     (case null_cols a of
        None \<Rightarrow> Inr []
      | Some _ \<Rightarrow>
          map_e (\<lambda>col_name. bind_e (c_getattr tbl col_name) (\<lambda>col. Inr (col_eq col PNone))) cols)"

definition non_null_block :: "table \<Rightarrow> string list \<Rightarrow> read_args \<Rightarrow> error + expr list" where
  "non_null_block tbl cols a =
     (case non_null_cols a of
        None \<Rightarrow> Inr []
      | Some _ \<Rightarrow>
          map_e (\<lambda>col_name. bind_e (c_getattr tbl col_name) (\<lambda>col. Inr (col_is_not_none col))) cols)"

text \<open>
  Lines 230-232. The value is the binding of the local \<^verbatim>\<open>conditions_equals\<close> after the
  statement: \<open>None\<close> when the statement is skipped and the local is still unbound.
\<close>

definition equals_block :: "table \<Rightarrow> read_args \<Rightarrow> error + expr list option" where
  "equals_block tbl a =
     (case equals_col a of
        Some c \<Rightarrow>
          if equals_val a \<noteq> PNone then
            bind_e (c_getitem tbl c) (\<lambda>col. Inr (Some [col_eq col (equals_val a)]))
          else Inr None
      | None \<Rightarrow> Inr None)"

text \<open>
  Lines 233-236. The loop rebinds \<^verbatim>\<open>conditions_equals\<close> at every entry; line 236,
  outside the loop, appends whatever the local holds then.
\<close>

fun equals_dct_loop ::
  "table \<Rightarrow> (string \<times> pyval) list \<Rightarrow> expr list option \<Rightarrow> error + expr list option" where
  "equals_dct_loop tbl [] conditions_equals = Inr conditions_equals"
| "equals_dct_loop tbl ((equals_c, equals_v) # items) conditions_equals =
     bind_e (c_getitem tbl equals_c)
       (\<lambda>col. equals_dct_loop tbl items (Some [col_eq col equals_v]))"

definition equals_dct_block ::
  "table \<Rightarrow> read_args \<Rightarrow> expr list option \<Rightarrow> error + expr list" where
  "equals_dct_block tbl a conditions_equals =
     (case equals_dct a of
        None \<Rightarrow> Inr []
      | Some items \<Rightarrow>
          bind_e (equals_dct_loop tbl items conditions_equals)
            (\<lambda>ce. case ce of None \<Rightarrow> Inl UnboundLocalError | Some xs \<Rightarrow> Inr xs))"

text \<open>Lines 237-239.\<close>

definition in_arr_block :: "table \<Rightarrow> read_args \<Rightarrow> error + expr list" where
  "in_arr_block tbl a =
     (case col_in_arr a of
        None \<Rightarrow> Inr []
      | Some (c, vs) \<Rightarrow> bind_e (c_getitem tbl c) (\<lambda>col. Inr [InList col vs]))"

text \<open>Lines 204-239: the list \<^verbatim>\<open>conditions\<close> when line 240 is reached.\<close>

definition collect_conditions :: "table \<Rightarrow> string list \<Rightarrow> read_args \<Rightarrow> error + expr list" where
  "collect_conditions tbl cols a =
     bind_e (between_block tbl a) (\<lambda>conditions_between.
     bind_e (Inr (([] @ conditions_between) @ after_block tbl a)) (\<lambda>conditions.
     bind_e (null_block tbl cols a) (\<lambda>conditions_null_cols.
     bind_e (non_null_block tbl cols a) (\<lambda>conditions_non_null_cols.
     bind_e (equals_block tbl a) (\<lambda>conditions_equals.
     bind_e (equals_dct_block tbl a conditions_equals) (\<lambda>conditions_equals_dct.
     bind_e (in_arr_block tbl a) (\<lambda>conditions_in_arr.
       Inr (conditions @ conditions_null_cols @ conditions_non_null_cols
            @ (case conditions_equals of None \<Rightarrow> [] | Some xs \<Rightarrow> xs)
            @ conditions_equals_dct @ conditions_in_arr))))))))"

text \<open>Lines 240-245: the statement handed to the store.\<close>

definition build_query ::
  "table \<Rightarrow> read_args \<Rightarrow> string list \<Rightarrow> expr list \<Rightarrow> error + query" where
  "build_query tbl a columns_to_select conditions =
     (let source_query = select columns_to_select;
          source_query =
            (if conditions \<noteq> [] then stmt_where source_query (SqlAnd conditions) else source_query)
      in bind_e
           (case order_by_col a of
              None \<Rightarrow> Inr source_query
            | Some oc \<Rightarrow>
                bind_e (c_getitem tbl oc) (\<lambda>col. Inr (stmt_order_by source_query col (order_by_asc a))))
           (\<lambda>source_query.
              Inr (case limit a of None \<Rightarrow> source_query | Some n \<Rightarrow> stmt_limit source_query n)))"

text \<open>Line 196: the projection list, \<^verbatim>\<open>columns\<close> or every column of the table.\<close>

definition resolve_columns :: "table \<Rightarrow> read_args \<Rightarrow> string list" where
  "resolve_columns tbl a = (case columns a of Some cs \<Rightarrow> cs | None \<Rightarrow> tbl_columns tbl)"

text \<open>Lines 195-249. Reflecting a table the schema does not have raises NoSuchTableError.\<close>

definition read_table :: "database \<Rightarrow> read_args \<Rightarrow> error + dataframe" where
  "read_table db a =
     (case db (table_name a) of
        None \<Rightarrow> Inl NoSuchTableError
      | Some tbl \<Rightarrow>
          (let cols = resolve_columns tbl a in
           bind_e (map_e (c_getattr tbl) cols) (\<lambda>columns_to_select.
           bind_e (collect_conditions tbl cols a) (\<lambda>conditions.
           bind_e (build_query tbl a columns_to_select conditions) (\<lambda>source_query.
             read_sql tbl source_query)))))"

section \<open>get_last_row and get_first_row_after\<close>





section \<open>The serialization helpers\<close>

text \<open>Whether \<^verbatim>\<open>json.dumps(value)\<close> returns (it raises on an object it cannot encode).\<close>

fun json_dumps_ok :: "pyval \<Rightarrow> bool" where
  "json_dumps_ok (PObj s) = False"
| "json_dumps_ok _ = True"

fun digits :: "nat \<Rightarrow> string" where
  "digits n = (if n < 10 then [char_of (48 + n)] else digits (n div 10) @ [char_of (48 + n mod 10)])"

text \<open>\<^verbatim>\<open>str(value)\<close>.\<close>

fun py_str :: "pyval \<Rightarrow> string" where
  "py_str PNone = ''None''"
| "py_str (PBool b) = (if b then ''True'' else ''False'')"
| "py_str (PInt n) = (if n < 0 then CHR ''-'' # digits (nat (- n)) else digits (nat n))"
| "py_str (PStr s) = s"
| "py_str (PObj s) = s"

text \<open>helpers.py, lines 29-37.\<close>

definition jsonify_dict :: "('k \<times> pyval) list \<Rightarrow> ('k \<times> pyval) list" where
  "jsonify_dict d_in =
     foldl (\<lambda>d_out (key, val).
              if json_dumps_ok val then AList.update key val d_out
              else AList.update key (PStr (py_str val)) d_out)
       [] d_in"

text \<open>helpers.py, lines 39-47. Each record is rewritten in place, field by field, while
  its own items are iterated; the list that comes back is the list that went in.\<close>

definition jsonify_record_in_place :: "('k \<times> pyval) list \<Rightarrow> ('k \<times> pyval) list" where
  "jsonify_record_in_place d_in =
     foldl (\<lambda>d (key, val).
              if json_dumps_ok val then AList.update key val d
              else AList.update key (PStr (py_str val)) d)
       d_in d_in"

definition jsonify_records :: "('k \<times> pyval) list list \<Rightarrow> ('k \<times> pyval) list list" where
  "jsonify_records records_arr = map jsonify_record_in_place records_arr"

section \<open>batch_update_table\<close>

text \<open>
  A connection inside \<^verbatim>\<open>with self.engine.begin() as conn\<close>: what the store holds
  durably, what the open transaction sees, and whether that transaction is still open.
\<close>

record connection =
  durable :: database
  working :: database
  trans_active :: bool

type_synonym 'a io = "connection \<Rightarrow> (error + 'a) \<times> connection"

definition bind_io :: "'a io \<Rightarrow> ('a \<Rightarrow> 'b io) \<Rightarrow> 'b io" where
  "bind_io m f = (\<lambda>c. case m c of (Inl e, c') \<Rightarrow> (Inl e, c') | (Inr x, c') \<Rightarrow> f x c')"

definition lift_io :: "error + 'a \<Rightarrow> 'a io" where
  "lift_io m = (\<lambda>c. (m, c))"

text \<open>
  The names bound in the namespace of sqlalchemy.py: its imports and its class. The
  function \<^verbatim>\<open>tab\<close> lives in helpers.py, which sqlalchemy.py does not import.
\<close>

definition module_globals :: "string list" where
  "module_globals =
     [''time'', ''pd'', ''sql'', ''Table'', ''_DATABASE_UID'', ''_DATABASE_PWD'',
      ''_DATABASE_HOST'', ''SqlAlchemy'']"

definition builtins :: "string list" where
  "builtins = [''print'', ''len'', ''min'', ''int'', ''range'', ''enumerate'', ''dict'',
     ''zip'', ''getattr'']"

definition load_global :: "string \<Rightarrow> error + unit" where
  "load_global name =
     (if name \<in> set module_globals \<or> name \<in> set builtins then Inr () else Inl NameError)"

text \<open>\<^verbatim>\<open>row[key]\<close> on a dictionary.\<close>

definition dict_getitem :: "('k \<times> 'v) list \<Rightarrow> 'k \<Rightarrow> error + 'v" where
  "dict_getitem d key = (case map_of d key of None \<Rightarrow> Inl KeyError | Some v \<Rightarrow> Inr v)"

text \<open>\<^verbatim>\<open>range(0, total_rows, batch_size)\<close> for a step that is not zero (none for a negative step).\<close>

definition py_range :: "nat \<Rightarrow> int \<Rightarrow> nat list" where
  "py_range stop step =
     (if step \<le> 0 then []
      else map (\<lambda>k. k * nat step) [0 ..< (stop + nat step - 1) div nat step])"

text \<open>
  \<^verbatim>\<open>conn.execute(update(tbl).where(tbl.c.id == key).values(fee_price=.., fee_value=..))\<close>.
  Once \<^verbatim>\<open>conn.commit()\<close> has closed the transaction of the enclosing \<^verbatim>\<open>begin()\<close>
  block, the connection refuses further statements inside the block.
\<close>

definition execute_update ::
  "string \<Rightarrow> string \<Rightarrow> pyval \<Rightarrow> pyval \<Rightarrow> pyval \<Rightarrow> unit io" where
  "execute_update tname id_col key fee_price fee_value =
     (\<lambda>c.
        if \<not> trans_active c then (Inl InvalidRequestError, c)
        else
          (case working c tname of
             None \<Rightarrow> (Inl DatabaseError, c)
           | Some tbl \<Rightarrow>
               if ''fee_price'' \<notin> set (tbl_columns tbl) \<or> ''fee_value'' \<notin> set (tbl_columns tbl)
               then (Inl CompileError, c)
               else
                 (Inr (),
                  c\<lparr>working := (working c)(tname \<mapsto>
                       tbl\<lparr>tbl_rows :=
                             map (\<lambda>r. if eval (col_eq id_col key) r = Some True
                                       then r(''fee_price'' := fee_price, ''fee_value'' := fee_value)
                                       else r)
                               (tbl_rows tbl)\<rparr>)\<rparr>)))"

definition commit :: "unit io" where
  "commit = (\<lambda>c. (Inr (), c\<lparr>durable := working c, trans_active := False\<rparr>))"

text \<open>Lines 301-303.\<close>

fun update_rows ::
  "table \<Rightarrow> string \<Rightarrow> string \<Rightarrow> (string \<times> pyval) list list \<Rightarrow> unit io" where
  "update_rows tbl tname col_merge [] = lift_io (Inr ())"
| "update_rows tbl tname col_merge (row # rows) =
     bind_io (lift_io (c_getattr tbl ''id'')) (\<lambda>id_col.
     bind_io (lift_io (dict_getitem row col_merge)) (\<lambda>key.
     bind_io (lift_io (dict_getitem row ''fee_price'')) (\<lambda>fee_price.
     bind_io (lift_io (dict_getitem row ''fee_value'')) (\<lambda>fee_value.
     bind_io (execute_update tname id_col key fee_price fee_value) (\<lambda>_.
       update_rows tbl tname col_merge rows)))))"

text \<open>Lines 288-304: one iteration per offset. Line 298 calls \<^verbatim>\<open>tab\<close>.\<close>

fun batch_loop ::
  "table \<Rightarrow> string \<Rightarrow> (string \<times> pyval) list list \<Rightarrow> string \<Rightarrow> nat \<Rightarrow> nat list \<Rightarrow> unit io" where
  "batch_loop tbl tname arr_rows col_merge batch_size [] = lift_io (Inr ())"
| "batch_loop tbl tname arr_rows col_merge batch_size (offset # offsets) =
     (let total_rows = length arr_rows;
          i_low = offset;
          i_high = offset + min batch_size (total_rows - offset);
          sub_arr_rows = take (i_high - i_low) (drop i_low arr_rows)
      in bind_io (lift_io (load_global ''print'')) (\<lambda>_.
         bind_io (lift_io (load_global ''tab'')) (\<lambda>_.
         bind_io (update_rows tbl tname col_merge sub_arr_rows) (\<lambda>_.
         bind_io commit (\<lambda>_.
           batch_loop tbl tname arr_rows col_merge batch_size offsets)))))"

text \<open>
  Lines 270-304. The block of \<^verbatim>\<open>engine.begin()\<close> commits on a normal exit when the
  transaction is still open, and keeps only what is durable when the body raises.
\<close>

definition batch_update_table ::
  "database \<Rightarrow> string \<Rightarrow> (string \<times> pyval) list list \<Rightarrow> string \<Rightarrow> int
     \<Rightarrow> (error + unit) \<times> database" where
  "batch_update_table db tname arr_rows col_merge batch_size =
     (let conn = \<lparr>durable = db, working = db, trans_active = True\<rparr>;
          body =
            (case db tname of
               None \<Rightarrow> lift_io (Inl NoSuchTableError)
             | Some tbl \<Rightarrow>
                 if batch_size = 0 then lift_io (Inl ZeroDivisionError)
                 else batch_loop tbl tname arr_rows col_merge (nat batch_size)
                        (py_range (length arr_rows) batch_size))
      in case body conn of
           (Inl e, c) \<Rightarrow> (Inl e, durable c)
         | (Inr u, c) \<Rightarrow> (Inr u, if trans_active c then working c else durable c))"

section \<open>Vocabulary of the statements and example data\<close>


text \<open>A table \<^verbatim>\<open>t\<close> with columns \<^verbatim>\<open>id\<close> and \<^verbatim>\<open>price\<close> and five rows.\<close>

definition ex_row :: "int \<Rightarrow> pyval \<Rightarrow> row" where
  "ex_row i p = (\<lambda>c. if c = ''id'' then PInt i else if c = ''price'' then p else PNone)"

definition ex_table :: table where
  "ex_table =
     \<lparr>tbl_columns = [''id'', ''price''],
      tbl_rows = [ex_row (- 5) (PInt 30), ex_row 1 (PInt 10), ex_row 7 PNone,
                  ex_row 20 (PInt 10), ex_row 3 (PInt 10)]\<rparr>"

definition ex_db :: database where
  "ex_db = [''t'' \<mapsto> ex_table]"

text \<open>A table \<^verbatim>\<open>fees\<close> as \<^verbatim>\<open>batch_update_table\<close> expects it.\<close>

definition ex_fee_row :: "int \<Rightarrow> row" where
  "ex_fee_row i = (\<lambda>c. if c = ''id'' then PInt i else PNone)"

definition ex_fee_db :: database where
  "ex_fee_db =
     [''fees'' \<mapsto> \<lparr>tbl_columns = [''id'', ''fee_price'', ''fee_value''],
                     tbl_rows = [ex_fee_row 1, ex_fee_row 2]\<rparr>]"



text \<open>A between range with both bounds \<^verbatim>\<open>None\<close>.\<close>

definition ex_args_no_bounds :: read_args where
  "ex_args_no_bounds =
     (default_args ''t'')\<lparr>between_col := Some ''id'', between_arr := Some [PNone, PNone]\<rparr>"

text \<open>A null directive that names \<^verbatim>\<open>id\<close> while the projection is \<^verbatim>\<open>price\<close>.\<close>

definition ex_args_null :: read_args where
  "ex_args_null = (default_args ''t'')\<lparr>columns := Some [''price''], null_cols := Some [''id'']\<rparr>"

text \<open>An equals-map with two entries.\<close>

definition ex_args_dct :: read_args where
  "ex_args_dct =
     (default_args ''t'')\<lparr>equals_dct := Some [(''id'', PInt 1), (''price'', PInt 10)]\<rparr>"




text \<open>A record with a field that \<^verbatim>\<open>json.dumps\<close> rejects.\<close>

definition ex_record :: "(string \<times> pyval) list" where
  "ex_record = [(''id'', PInt 1), (''blob'', PObj ''<blob>''), (''name'', PStr ''a'')]"

text \<open>One row for \<^verbatim>\<open>batch_update_table\<close>.\<close>

definition ex_fee_rows :: "(string \<times> pyval) list list" where
  "ex_fee_rows = [[(''id'', PInt 1), (''fee_price'', PInt 2), (''fee_value'', PInt 3)]]"

section \<open>Auxiliary facts\<close>

lemma bind_e_Inr_iff: "bind_e m f = Inr y \<longleftrightarrow> (\<exists>x. m = Inr x \<and> f x = Inr y)"
  by (cases m) (simp_all add: bind_e_def)

lemma map_e_getattr_iff:
  "map_e (c_getattr tbl) cols = Inr ys \<longleftrightarrow> set cols \<subseteq> set (tbl_columns tbl) \<and> ys = cols"
  by (induction cols arbitrary: ys) (auto simp: bind_e_Inr_iff c_getattr_def)

lemma sql_and_true: "sql_and x y = Some True \<longleftrightarrow> x = Some True \<and> y = Some True"
  by (cases "(x, y)" rule: sql_and.cases) auto

lemma eval_SqlAnd_true:
  "eval (SqlAnd es) r = Some True \<longleftrightarrow> list_all (\<lambda>e. eval e r = Some True) es"
  by (induction es) (simp_all add: sql_and_true)

lemma collect_conditions_Inr:
  assumes "collect_conditions tbl cols a = Inr conds"
  shows "\<exists>cb cn cnn ce cd ci.
           between_block tbl a = Inr cb \<and> null_block tbl cols a = Inr cn \<and>
           non_null_block tbl cols a = Inr cnn \<and> equals_block tbl a = Inr ce \<and>
           equals_dct_block tbl a ce = Inr cd \<and> in_arr_block tbl a = Inr ci \<and>
           conds = cb @ after_block tbl a @ cn @ cnn
                     @ (case ce of None \<Rightarrow> [] | Some xs \<Rightarrow> xs) @ cd @ ci"
  using assms unfolding collect_conditions_def bind_e_Inr_iff by auto

lemma build_query_Inr:
  assumes "build_query tbl a cs conds = Inr q"
  shows "q_columns q = cs \<and>
         q_where q = (if conds = [] then None else Some (SqlAnd conds)) \<and>
         q_order_by q = map_option (\<lambda>c. (c, order_by_asc a)) (order_by_col a) \<and>
         q_limit q = limit a"
  using assms
  by (auto simp: build_query_def Let_def bind_e_Inr_iff select_def stmt_where_def
      stmt_order_by_def stmt_limit_def c_getitem_def split: option.splits if_splits)

lemma filter_rows_conj:
  "filter_rows (if conds = [] then None else Some (SqlAnd conds)) rs =
     filter (\<lambda>r. list_all (\<lambda>e. eval e r = Some True) conds) rs"
  by (simp add: filter_rows_def eval_SqlAnd_true del: eval.simps)











lemma read_table_Inr:
  assumes "read_table db a = Inr df"
  shows "\<exists>tbl conds q.
           db (table_name a) = Some tbl \<and>
           set (resolve_columns tbl a) \<subseteq> set (tbl_columns tbl) \<and>
           collect_conditions tbl (resolve_columns tbl a) a = Inr conds \<and>
           build_query tbl a (resolve_columns tbl a) conds = Inr q \<and>
           read_sql tbl q = Inr df \<and>
           (case limit a of None \<Rightarrow> True | Some n \<Rightarrow> 0 \<le> n) \<and>
           df = \<lparr>df_columns = resolve_columns tbl a,
                 df_rows = map (project (resolve_columns tbl a))
                   (limit_rows (limit a)
                     (order_rows (map_option (\<lambda>c. (c, order_by_asc a)) (order_by_col a))
                       (filter (\<lambda>r. list_all (\<lambda>e. eval e r = Some True) conds)
                          (tbl_rows tbl))))\<rparr>"
proof -
  from assms obtain tbl where t: "db (table_name a) = Some tbl"
    by (auto simp: read_table_def split: option.splits)
  let ?cols = "resolve_columns tbl a"
  from assms t obtain cs conds q where
    cs: "map_e (c_getattr tbl) ?cols = Inr cs" and
    co: "collect_conditions tbl ?cols a = Inr conds" and
    bq: "build_query tbl a cs conds = Inr q" and
    rs: "read_sql tbl q = Inr df"
    by (auto simp: read_table_def Let_def bind_e_Inr_iff)
  from cs have sub: "set ?cols \<subseteq> set (tbl_columns tbl)" and cseq: "cs = ?cols"
    by (simp_all add: map_e_getattr_iff)
  note q = build_query_Inr [OF bq]
  from rs have lim: "case limit a of None \<Rightarrow> True | Some n \<Rightarrow> 0 \<le> n"
    by (auto simp: read_sql_def execute_select_def bind_e_Inr_iff q split: option.splits if_splits)
  from rs have "df = \<lparr>df_columns = ?cols,
                 df_rows = map (project ?cols)
                   (limit_rows (limit a)
                     (order_rows (map_option (\<lambda>c. (c, order_by_asc a)) (order_by_col a))
                       (filter (\<lambda>r. list_all (\<lambda>e. eval e r = Some True) conds)
                          (tbl_rows tbl))))\<rparr>"
    by (auto simp: read_sql_def execute_select_def bind_e_Inr_iff q cseq filter_rows_conj
        split: if_splits)
  with t sub co bq rs lim cseq show ?thesis by blast
qed

lemmas read_defs = read_table_def resolve_columns_def collect_conditions_def between_block_def
  after_block_def null_block_def non_null_block_def equals_block_def equals_dct_block_def
  in_arr_block_def build_query_def read_sql_def execute_select_def filter_rows_def
  order_rows_def limit_rows_def project_def select_def stmt_where_def stmt_order_by_def
  stmt_limit_def c_getitem_def c_getattr_def col_eq_def col_is_not_none_def bind_e_def
  default_args_def

lemmas ex_defs = ex_db_def ex_table_def ex_row_def

lemma set_limit_order_rows: "set (limit_rows l (order_rows ob rs)) \<subseteq> set rs"
proof -
  have "set (limit_rows l xs) \<subseteq> set xs" for xs :: "row list"
    by (cases l) (auto simp: limit_rows_def dest: in_set_takeD)
  moreover have "set (order_rows ob rs) = set rs"
    by (auto simp: order_rows_def split: option.splits)
  ultimately show ?thesis by metis
qed

lemma read_table_rows:
  assumes "read_table db a = Inr df"
  shows "\<exists>tbl conds rs.
           db (table_name a) = Some tbl \<and>
           collect_conditions tbl (resolve_columns tbl a) a = Inr conds \<and>
           set rs \<subseteq> set (tbl_rows tbl) \<and>
           df_rows df = map (project (resolve_columns tbl a)) rs \<and>
           list_all (\<lambda>r. list_all (\<lambda>e. eval e r = Some True) conds) rs"
proof -
  from read_table_Inr [OF assms] obtain tbl conds where
    t: "db (table_name a) = Some tbl" and
    co: "collect_conditions tbl (resolve_columns tbl a) a = Inr conds" and
    df: "df = \<lparr>df_columns = resolve_columns tbl a,
                 df_rows = map (project (resolve_columns tbl a))
                   (limit_rows (limit a)
                     (order_rows (map_option (\<lambda>c. (c, order_by_asc a)) (order_by_col a))
                       (filter (\<lambda>r. list_all (\<lambda>e. eval e r = Some True) conds)
                          (tbl_rows tbl))))\<rparr>"
    by blast
  let ?f = "filter (\<lambda>r. list_all (\<lambda>e. eval e r = Some True) conds) (tbl_rows tbl)"
  let ?rs = "limit_rows (limit a)
               (order_rows (map_option (\<lambda>c. (c, order_by_asc a)) (order_by_col a)) ?f)"
  have sub: "set ?rs \<subseteq> set ?f" by (rule set_limit_order_rows)
  then have "set ?rs \<subseteq> set (tbl_rows tbl)" by auto
  moreover from sub have "list_all (\<lambda>r. list_all (\<lambda>e. eval e r = Some True) conds) ?rs"
    by (auto simp: list_all_iff)
  moreover from df have "df_rows df = map (project (resolve_columns tbl a)) ?rs" by simp
  ultimately show ?thesis using t co by blast
qed



lemma collect_conditions_null:
  "collect_conditions tbl cols a = Inr conds \<Longrightarrow> null_block tbl cols a = Inr cn \<Longrightarrow>
     set cn \<subseteq> set conds"
  by (drule collect_conditions_Inr) auto

lemma collect_conditions_non_null:
  "collect_conditions tbl cols a = Inr conds \<Longrightarrow> non_null_block tbl cols a = Inr cn \<Longrightarrow>
     set cn \<subseteq> set conds"
  by (drule collect_conditions_Inr) auto

lemma map_e_total:
  "(\<And>x. x \<in> set xs \<Longrightarrow> f x = Inr (g x)) \<Longrightarrow> map_e f xs = Inr (map g xs)"
  by (induction xs) (simp_all add: bind_e_def)

lemma null_block_projection:
  "set cols \<subseteq> set (tbl_columns tbl) \<Longrightarrow> null_cols a \<noteq> None \<Longrightarrow>
     null_block tbl cols a = Inr (map IsNull cols)"
  by (cases "null_cols a")
     (auto simp: null_block_def c_getattr_def bind_e_def col_eq_def intro!: map_e_total)

lemma non_null_block_projection:
  "set cols \<subseteq> set (tbl_columns tbl) \<Longrightarrow> non_null_cols a \<noteq> None \<Longrightarrow>
     non_null_block tbl cols a = Inr (map IsNotNull cols)"
  by (cases "non_null_cols a")
     (auto simp: non_null_block_def c_getattr_def bind_e_def col_is_not_none_def
       intro!: map_e_total)

lemma build_query_cong:
  "order_by_col a = order_by_col a' \<Longrightarrow> order_by_asc a = order_by_asc a' \<Longrightarrow>
   limit a = limit a' \<Longrightarrow> build_query tbl a cs conds = build_query tbl a' cs conds"
  by (simp add: build_query_def Let_def split: option.splits)

lemma collect_conditions_cong:
  "between_block tbl a = between_block tbl a' \<Longrightarrow>
   after_block tbl a = after_block tbl a' \<Longrightarrow>
   null_block tbl cols a = null_block tbl cols a' \<Longrightarrow>
   non_null_block tbl cols a = non_null_block tbl cols a' \<Longrightarrow>
   equals_block tbl a = equals_block tbl a' \<Longrightarrow>
   (\<And>ce. equals_dct_block tbl a ce = equals_dct_block tbl a' ce) \<Longrightarrow>
   in_arr_block tbl a = in_arr_block tbl a' \<Longrightarrow>
   collect_conditions tbl cols a = collect_conditions tbl cols a'"
  by (simp add: collect_conditions_def)

lemma read_table_cong:
  assumes "table_name a = table_name a'" and "columns a = columns a'"
    and "order_by_col a = order_by_col a'" and "order_by_asc a = order_by_asc a'"
    and "limit a = limit a'"
    and "\<And>tbl. db (table_name a) = Some tbl \<Longrightarrow>
           collect_conditions tbl (resolve_columns tbl a) a =
           collect_conditions tbl (resolve_columns tbl a) a'"
  shows "read_table db a = read_table db a'"
proof (cases "db (table_name a)")
  case None
  with assms(1) show ?thesis by (simp add: read_table_def)
next
  case (Some tbl)
  have rc: "resolve_columns tbl a' = resolve_columns tbl a"
    using assms(2) by (simp add: resolve_columns_def)
  have bq: "build_query tbl a' = build_query tbl a"
    using build_query_cong [OF assms(3-5)] by (intro ext) simp
  from Some assms(1) have "db (table_name a') = Some tbl" by simp
  with Some show ?thesis
    by (simp add: read_table_def rc bq assms(6) [OF Some])
qed

lemma read_table_null_names:
  "read_table db (a\<lparr>null_cols := Some ns\<rparr>) = read_table db (a\<lparr>null_cols := Some ns'\<rparr>)"
  by (rule read_table_cong; simp?)
     (rule collect_conditions_cong;
      simp add: between_block_def after_block_def null_block_def non_null_block_def
        equals_block_def equals_dct_block_def in_arr_block_def split: option.splits)

lemma read_table_non_null_names:
  "read_table db (a\<lparr>non_null_cols := Some ns\<rparr>) =
     read_table db (a\<lparr>non_null_cols := Some ns'\<rparr>)"
  by (rule read_table_cong; simp?)
     (rule collect_conditions_cong;
      simp add: between_block_def after_block_def null_block_def non_null_block_def
        equals_block_def equals_dct_block_def in_arr_block_def split: option.splits)

lemma equals_dct_loop_result:
  "equals_dct_loop tbl items ce =
     (if list_all (\<lambda>(k, v). k \<in> set (tbl_columns tbl)) items
      then Inr (if items = [] then ce else Some [col_eq (fst (last items)) (snd (last items))])
      else Inl KeyError)"
  by (induction tbl items ce rule: equals_dct_loop.induct)
     (auto simp: bind_e_def c_getitem_def)

lemma equals_dct_block_result:
  assumes "equals_dct a = Some items" and "items \<noteq> []"
  shows "equals_dct_block tbl a ce =
     (if list_all (\<lambda>(k, v). k \<in> set (tbl_columns tbl)) items
      then Inr [col_eq (fst (last items)) (snd (last items))] else Inl KeyError)"
  using assms by (simp add: equals_dct_block_def equals_dct_loop_result bind_e_def)


lemma read_table_dct_last:
  assumes "db (table_name a) = Some tbl" and "equals_dct a = Some items" and "items \<noteq> []"
    and "list_all (\<lambda>(k, v). k \<in> set (tbl_columns tbl)) items"
  shows "read_table db a = read_table db (a\<lparr>equals_dct := Some [last items]\<rparr>)"
proof (rule read_table_cong; simp?)
  fix t
  assume "db (table_name a) = Some t"
  with assms(1) have t: "t = tbl" by simp
  from last_in_set [OF assms(3)] assms(4) have l: "fst (last items) \<in> set (tbl_columns tbl)"
    by (auto simp: list_all_iff case_prod_beta)
  have "equals_dct_block tbl a ce =
        equals_dct_block tbl (a\<lparr>equals_dct := Some [last items]\<rparr>) ce" for ce
    using assms(4) l
    by (simp add: equals_dct_block_result [OF assms(2,3)]
        equals_dct_block_result [of "a\<lparr>equals_dct := Some [last items]\<rparr>" "[last items]"]
        case_prod_beta)
  then show "collect_conditions t (resolve_columns t a) a =
        collect_conditions t (resolve_columns t a) (a\<lparr>equals_dct := Some [last items]\<rparr>)"
    unfolding t
    by (intro collect_conditions_cong)
       (simp_all add: between_block_def after_block_def null_block_def non_null_block_def
         equals_block_def in_arr_block_def split: option.splits)
qed












lemma update_fresh: "k \<notin> fst ` set al \<Longrightarrow> AList.update k v al = al @ [(k, v)]"
  by (induction al) auto

lemma update_middle:
  "k \<notin> fst ` set pre \<Longrightarrow> AList.update k v' (pre @ (k, v) # post) = pre @ (k, v') # post"
  by (induction pre) auto

lemma jsonify_fold_fresh:
  "distinct (map fst (acc @ d)) \<Longrightarrow>
   foldl (\<lambda>d_out (key, val).
            if json_dumps_ok val then AList.update key val d_out
            else AList.update key (PStr (py_str val)) d_out) acc d =
     acc @ map (\<lambda>(key, v). (key, if json_dumps_ok v then v else PStr (py_str v))) d"
proof (induction d arbitrary: acc)
  case Nil
  then show ?case by simp
next
  case (Cons kv d)
  obtain k v where kv: "kv = (k, v)" by (cases kv)
  from Cons.prems kv have fresh: "k \<notin> fst ` set acc" by auto
  from Cons.prems kv have "distinct (map fst ((acc @ [(k, w)]) @ d))" for w by auto
  from Cons.IH [OF this] show ?case
    by (simp add: kv update_fresh [OF fresh])
qed

lemma jsonify_fold_in_place:
  "distinct (map fst (pre @ d)) \<Longrightarrow>
   foldl (\<lambda>d_out (key, val).
            if json_dumps_ok val then AList.update key val d_out
            else AList.update key (PStr (py_str val)) d_out) (pre @ d) d =
     pre @ map (\<lambda>(key, v). (key, if json_dumps_ok v then v else PStr (py_str v))) d"
proof (induction d arbitrary: pre)
  case Nil
  then show ?case by simp
next
  case (Cons kv d)
  obtain k v where kv: "kv = (k, v)" by (cases kv)
  from Cons.prems kv have fresh: "k \<notin> fst ` set pre" by auto
  from Cons.prems kv have "distinct (map fst ((pre @ [(k, w)]) @ d))" for w by auto
  from Cons.IH [OF this] show ?case
    by (simp add: kv update_middle [OF fresh])
qed

lemma jsonify_values_ok:
  "list_all (\<lambda>(key, v). json_dumps_ok v)
     (map (\<lambda>(key, v). (key, if json_dumps_ok v then v else PStr (py_str v))) d)"
  by (auto simp: list_all_iff)

lemma batch_update_table_raises_name_error:
  assumes "db t = Some tbl" and "arr_rows \<noteq> []" and "0 < batch_size"
  shows "batch_update_table db t arr_rows col_merge batch_size = (Inl NameError, db)"
proof -
  from assms(2) have "0 < length arr_rows" by simp
  with assms(3) have "nat batch_size \<le> length arr_rows + nat batch_size - 1" by arith
  with assms(3) have "0 < (length arr_rows + nat batch_size - 1) div nat batch_size"
    by (simp add: div_greater_zero_iff)
  then have "py_range (length arr_rows) batch_size =
      0 # map (\<lambda>k. k * nat batch_size)
            [Suc 0 ..< (length arr_rows + nat batch_size - 1) div nat batch_size]"
    using assms(3) by (simp add: py_range_def upt_conv_Cons)
  then obtain offsets where r: "py_range (length arr_rows) batch_size = 0 # offsets"
    by blast
  show ?thesis
    using assms(1,3)
    by (simp add: batch_update_table_def r Let_def bind_io_def lift_io_def load_global_def
        module_globals_def builtins_def)
qed

section \<open>The composition of the filter (C1)\<close>



section \<open>The between directive (C2)\<close>




section \<open>A between directive without a truthy bound (C10)\<close>

text \<open>
  C10. With a between column and a two-element array whose entries are both falsy, the
  guard of line 205 holds, no branch of lines 207-212 assigns \<^verbatim>\<open>conditions_between\<close>,
  and line 213 raises UnboundLocalError: the call never returns rows. It raises exactly
  that error whenever the table exists and the projection columns are columns of it
  (otherwise an earlier line has raised already).
\<close>

theorem between_falsy_bounds_raise:
  assumes "between_col a = Some c" and "c \<noteq> []" and "between_arr a = Some [s, e]"
    and "\<not> truthy s" and "\<not> truthy e"
  shows "between_block tbl a = Inl UnboundLocalError \<and>
         (\<exists>err. read_table db a = Inl err) \<and>
         (db (table_name a) = Some tbl \<and> set (resolve_columns tbl a) \<subseteq> set (tbl_columns tbl)
            \<longrightarrow> read_table db a = Inl UnboundLocalError)"
proof -
  have blk: "between_block t a = Inl UnboundLocalError" for t
    using assms by (simp add: between_block_def)
  have col: "collect_conditions t cols a = Inl UnboundLocalError" for t cols
    by (simp add: collect_conditions_def blk bind_e_def)
  have fails: "\<exists>err. read_table db a = Inl err"
  proof (cases "read_table db a")
    case (Inl err)
    then show ?thesis by blast
  next
    case (Inr df)
    from read_table_Inr [OF Inr] col show ?thesis by auto
  qed
  have "read_table db a = Inl UnboundLocalError"
    if "db (table_name a) = Some tbl" "set (resolve_columns tbl a) \<subseteq> set (tbl_columns tbl)"
  proof -
    from that(2) have "map_e (c_getattr tbl) (resolve_columns tbl a) = Inr (resolve_columns tbl a)"
      by (simp add: map_e_getattr_iff)
    with that(1) show ?thesis
      by (simp add: read_table_def Let_def col bind_e_def)
  qed
  with blk fails show ?thesis by blast
qed

text \<open>On the example: \<^verbatim>\<open>between_arr=[None, None]\<close>.\<close>

theorem between_falsy_bounds_raise_witness:
  "between_col ex_args_no_bounds = Some ''id'' \<and> ''id'' \<noteq> [] \<and>
   between_arr ex_args_no_bounds = Some [PNone, PNone] \<and> \<not> truthy PNone \<and>
   ex_db (table_name ex_args_no_bounds) = Some ex_table \<and>
   set (resolve_columns ex_table ex_args_no_bounds) \<subseteq> set (tbl_columns ex_table) \<and>
   between_block ex_table ex_args_no_bounds = Inl UnboundLocalError \<and>
   read_table ex_db ex_args_no_bounds = Inl UnboundLocalError"
proof -
  have h1: "between_col ex_args_no_bounds = Some ''id''" and h2: "''id'' \<noteq> []"
    and h3: "between_arr ex_args_no_bounds = Some [PNone, PNone]" and h4: "\<not> truthy PNone"
    and tb: "ex_db (table_name ex_args_no_bounds) = Some ex_table"
    and cs: "set (resolve_columns ex_table ex_args_no_bounds) \<subseteq> set (tbl_columns ex_table)"
    by (simp_all add: ex_args_no_bounds_def default_args_def ex_defs resolve_columns_def)
  note th = between_falsy_bounds_raise [OF h1 h2 h3 h4 h4, of ex_table ex_db]
  from th tb cs have "between_block ex_table ex_args_no_bounds = Inl UnboundLocalError"
    and "read_table ex_db ex_args_no_bounds = Inl UnboundLocalError"
    by blast+
  with h1 h2 h3 h4 tb cs show ?thesis by blast
qed

section \<open>The null and non-null directives (C3)\<close>

text \<open>
  C3. On a table that has the projection columns, a null directive contributes
  \<^verbatim>\<open>column IS NULL\<close> for each column of the projection list (the \<^verbatim>\<open>columns\<close>
  argument, or every column of the table), and a non-null directive contributes
  \<^verbatim>\<open>column IS NOT NULL\<close> for each of them. The names listed in the directive play
  no part: the call returns the same whatever names the directive lists. So every row
  returned under a null directive is NULL in each selected column.
\<close>

theorem null_directives_filter_projection:
  assumes "db (table_name a) = Some tbl"
    and "set (resolve_columns tbl a) \<subseteq> set (tbl_columns tbl)"
  shows "(null_cols a \<noteq> None \<longrightarrow>
            null_block tbl (resolve_columns tbl a) a = Inr (map IsNull (resolve_columns tbl a))) \<and>
         (non_null_cols a \<noteq> None \<longrightarrow>
            non_null_block tbl (resolve_columns tbl a) a =
              Inr (map IsNotNull (resolve_columns tbl a))) \<and>
         read_table db (a\<lparr>null_cols := Some ns\<rparr>) = read_table db (a\<lparr>null_cols := Some ns'\<rparr>) \<and>
         read_table db (a\<lparr>non_null_cols := Some ns\<rparr>) =
           read_table db (a\<lparr>non_null_cols := Some ns'\<rparr>) \<and>
         (\<forall>df. null_cols a \<noteq> None \<and> read_table db a = Inr df \<longrightarrow>
               list_all (list_all (\<lambda>v. v = PNone)) (df_rows df)) \<and>
         (\<forall>df. non_null_cols a \<noteq> None \<and> read_table db a = Inr df \<longrightarrow>
               list_all (list_all (\<lambda>v. v \<noteq> PNone)) (df_rows df))"
proof -
  let ?cols = "resolve_columns tbl a"
  have n: "null_cols a \<noteq> None \<longrightarrow> null_block tbl ?cols a = Inr (map IsNull ?cols)"
    using null_block_projection [OF assms(2)] by blast
  have nn: "non_null_cols a \<noteq> None \<longrightarrow>
      non_null_block tbl ?cols a = Inr (map IsNotNull ?cols)"
    using non_null_block_projection [OF assms(2)] by blast
  have rows: "list_all (list_all P) (df_rows df)"
    if rd: "read_table db a = Inr df" and
      sub: "\<And>conds. collect_conditions tbl ?cols a = Inr conds \<Longrightarrow> set (map E ?cols) \<subseteq> set conds"
      and sem: "\<And>c r. eval (E c) r = Some True \<Longrightarrow> P (r c)"
    for df and P :: "pyval \<Rightarrow> bool" and E :: "string \<Rightarrow> expr"
  proof -
    from read_table_rows [OF rd] assms(1) obtain conds rs where
      co: "collect_conditions tbl ?cols a = Inr conds" and
      rs: "df_rows df = map (project ?cols) rs"
        "list_all (\<lambda>r. list_all (\<lambda>e. eval e r = Some True) conds) rs"
      by auto
    have "P (r c)" if "r \<in> set rs" "c \<in> set ?cols" for r c
    proof -
      from sub [OF co] that(2) have "E c \<in> set conds" by auto
      with rs(2) that(1) have "eval (E c) r = Some True"
        by (auto simp: list_all_iff simp del: eval.simps)
      then show ?thesis by (rule sem)
    qed
    then show ?thesis by (simp add: rs(1) project_def list_all_iff)
  qed
  have r1: "list_all (list_all (\<lambda>v. v = PNone)) (df_rows df)"
    if "null_cols a \<noteq> None" "read_table db a = Inr df" for df
  proof (rule rows [where E = IsNull, OF that(2)])
    fix conds
    assume "collect_conditions tbl ?cols a = Inr conds"
    from collect_conditions_null [OF this] n that(1)
    show "set (map IsNull ?cols) \<subseteq> set conds" by blast
  next
    fix c r
    assume "eval (IsNull c) r = Some True"
    then show "r c = PNone" by simp
  qed
  have r2: "list_all (list_all (\<lambda>v. v \<noteq> PNone)) (df_rows df)"
    if "non_null_cols a \<noteq> None" "read_table db a = Inr df" for df
  proof (rule rows [where E = IsNotNull, OF that(2)])
    fix conds
    assume "collect_conditions tbl ?cols a = Inr conds"
    from collect_conditions_non_null [OF this] nn that(1)
    show "set (map IsNotNull ?cols) \<subseteq> set conds" by blast
  next
    fix c r
    assume "eval (IsNotNull c) r = Some True"
    then show "r c \<noteq> PNone" by simp
  qed
  from n nn r1 r2 read_table_null_names [where db = db and a = a and ns = ns and ns' = ns']
    read_table_non_null_names [where db = db and a = a and ns = ns and ns' = ns']
  show ?thesis by blast
qed

text \<open>
  On the example: the directive names \<^verbatim>\<open>id\<close>, the projection is \<^verbatim>\<open>price\<close>; the
  row returned is the one whose price is NULL.
\<close>

theorem null_directives_filter_projection_witness:
  "ex_db (table_name ex_args_null) = Some ex_table \<and>
   set (resolve_columns ex_table ex_args_null) \<subseteq> set (tbl_columns ex_table) \<and>
   null_cols ex_args_null = Some [''id''] \<and>
   resolve_columns ex_table ex_args_null = [''price''] \<and>
   null_block ex_table (resolve_columns ex_table ex_args_null) ex_args_null =
     Inr (map IsNull (resolve_columns ex_table ex_args_null)) \<and>
   read_table ex_db ex_args_null = Inr \<lparr>df_columns = [''price''], df_rows = [[PNone]]\<rparr> \<and>
   list_all (list_all (\<lambda>v. v = PNone))
     (df_rows \<lparr>df_columns = [''price''], df_rows = [[PNone]]\<rparr>)"
proof -
  have h1: "ex_db (table_name ex_args_null) = Some ex_table"
    and h2: "set (resolve_columns ex_table ex_args_null) \<subseteq> set (tbl_columns ex_table)"
    and n: "null_cols ex_args_null = Some [''id'']"
    and c: "resolve_columns ex_table ex_args_null = [''price'']"
    by (simp_all add: ex_args_null_def default_args_def ex_defs resolve_columns_def)
  have rd: "read_table ex_db ex_args_null =
      Inr \<lparr>df_columns = [''price''], df_rows = [[PNone]]\<rparr>"
    by (simp add: read_defs ex_defs ex_args_null_def Let_def)
  note th = null_directives_filter_projection
    [where db = ex_db and a = ex_args_null and tbl = ex_table, OF h1 h2]
  from th n have "null_block ex_table (resolve_columns ex_table ex_args_null) ex_args_null =
     Inr (map IsNull (resolve_columns ex_table ex_args_null))"
    by simp
  moreover from th n rd have "list_all (list_all (\<lambda>v. v = PNone))
     (df_rows \<lparr>df_columns = [''price''], df_rows = [[PNone]]\<rparr>)"
    by blast
  ultimately show ?thesis using h1 h2 n c rd by blast
qed

section \<open>The equals-map directive (C4)\<close>

text \<open>
  C4. A non-empty equals-map contributes exactly one condition, the equality for its last
  entry in iteration order (every key being looked up on the way: a key that is not a
  column raises KeyError). What the local held before the loop is overwritten, and on an
  existing table the call returns what it returns for the map reduced to its last entry.
\<close>

theorem equals_dct_last_entry_only:
  assumes "equals_dct a = Some items" and "items \<noteq> []"
  shows "equals_dct_block tbl a ce =
           (if list_all (\<lambda>(k, v). k \<in> set (tbl_columns tbl)) items
            then Inr [col_eq (fst (last items)) (snd (last items))] else Inl KeyError) \<and>
         (list_all (\<lambda>(k, v). k \<in> set (tbl_columns tbl)) items \<and> db (table_name a) = Some tbl
            \<longrightarrow> read_table db a = read_table db (a\<lparr>equals_dct := Some [last items]\<rparr>))"
  using equals_dct_block_result [OF assms] read_table_dct_last [OF _ assms] by blast

text \<open>
  On the example: the map \<^verbatim>\<open>{'id': 1, 'price': 10}\<close> filters on the price alone, and
  the rows with id 20 and 3 are returned with the row with id 1.
\<close>

theorem equals_dct_last_entry_only_witness:
  "equals_dct ex_args_dct = Some [(''id'', PInt 1), (''price'', PInt 10)] \<and>
   [(''id'', PInt 1), (''price'', PInt 10)] \<noteq> [] \<and>
   list_all (\<lambda>(k, v). k \<in> set (tbl_columns ex_table)) [(''id'', PInt 1), (''price'', PInt 10)] \<and>
   ex_db (table_name ex_args_dct) = Some ex_table \<and>
   equals_dct_block ex_table ex_args_dct None = Inr [Eq ''price'' (PInt 10)] \<and>
   read_table ex_db ex_args_dct =
     read_table ex_db (ex_args_dct\<lparr>equals_dct := Some [(''price'', PInt 10)]\<rparr>) \<and>
   read_table ex_db ex_args_dct =
     Inr \<lparr>df_columns = [''id'', ''price''],
          df_rows = [[PInt 1, PInt 10], [PInt 20, PInt 10], [PInt 3, PInt 10]]\<rparr>"
proof -
  have h1: "equals_dct ex_args_dct = Some [(''id'', PInt 1), (''price'', PInt 10)]"
    and h2: "[(''id'', PInt 1), (''price'', PInt 10)] \<noteq> []"
    and v: "list_all (\<lambda>(k, v). k \<in> set (tbl_columns ex_table))
              [(''id'', PInt 1), (''price'', PInt 10)]"
    and t: "ex_db (table_name ex_args_dct) = Some ex_table"
    by (simp_all add: ex_args_dct_def default_args_def ex_defs)
  have rd: "read_table ex_db ex_args_dct =
     Inr \<lparr>df_columns = [''id'', ''price''],
          df_rows = [[PInt 1, PInt 10], [PInt 20, PInt 10], [PInt 3, PInt 10]]\<rparr>"
    by (simp add: read_defs ex_defs ex_args_dct_def Let_def)
  note th = equals_dct_last_entry_only [OF h1 h2, of ex_table None ex_db]
  from th v have "equals_dct_block ex_table ex_args_dct None = Inr [Eq ''price'' (PInt 10)]"
    by (simp add: col_eq_def)
  moreover from th v t have "read_table ex_db ex_args_dct =
     read_table ex_db (ex_args_dct\<lparr>equals_dct := Some [(''price'', PInt 10)]\<rparr>)"
    by simp
  ultimately show ?thesis using h1 h2 v t rd by blast
qed

section \<open>The after-cursor directive (C5)\<close>



section \<open>Limit and projection (C6)\<close>



section \<open>get_first_row_after and get_last_row (C9)\<close>



section \<open>The serialization helpers (C7)\<close>

text \<open>
  C7. For a record (a dictionary: its keys are distinct), \<^verbatim>\<open>jsonify_dict\<close> returns the
  record with the same fields in the same order, where each value that \<^verbatim>\<open>json.dumps\<close>
  rejects is replaced by its string form and every other value is unchanged;
  \<^verbatim>\<open>jsonify_records\<close> does the same to every record of a list. Both are total, and
  every value of the result is one \<^verbatim>\<open>json.dumps\<close> accepts.
\<close>

theorem jsonify_replaces_unserializable_fields:
  assumes "distinct (map fst d_in)"
    and "list_all (\<lambda>d. distinct (map fst d)) records_arr"
  shows "jsonify_dict d_in =
           map (\<lambda>(key, v). (key, if json_dumps_ok v then v else PStr (py_str v))) d_in \<and>
         list_all (\<lambda>(key, v). json_dumps_ok v) (jsonify_dict d_in) \<and>
         jsonify_records records_arr =
           map (map (\<lambda>(key, v). (key, if json_dumps_ok v then v else PStr (py_str v))))
             records_arr \<and>
         list_all (list_all (\<lambda>(key, v). json_dumps_ok v)) (jsonify_records records_arr)"
proof -
  let ?g = "\<lambda>(key, v). (key, if json_dumps_ok v then v else PStr (py_str v))"
  have d: "jsonify_dict d_in = map ?g d_in"
    using jsonify_fold_fresh [of "[]" d_in] assms(1) by (simp add: jsonify_dict_def)
  have "jsonify_record_in_place r = map ?g r" if "distinct (map fst r)" for r :: "('b \<times> pyval) list"
    using jsonify_fold_in_place [of "[]" r] that by (simp add: jsonify_record_in_place_def)
  with assms(2) have rs: "jsonify_records records_arr = map (map ?g) records_arr"
    by (simp add: jsonify_records_def list_all_iff)
  have "list_all (list_all (\<lambda>(key, v). json_dumps_ok v)) (map (map ?g) records_arr)"
    by (simp add: list_all_iff jsonify_values_ok [unfolded list_all_iff])
  with d jsonify_values_ok [of d_in] rs show ?thesis by simp
qed

text \<open>The example of the specification: the field \<^verbatim>\<open>blob\<close> becomes its string form.\<close>

theorem jsonify_replaces_unserializable_fields_witness:
  "distinct (map fst ex_record) \<and> list_all (\<lambda>d. distinct (map fst d)) [ex_record] \<and>
   jsonify_dict ex_record =
     [(''id'', PInt 1), (''blob'', PStr ''<blob>''), (''name'', PStr ''a'')] \<and>
   jsonify_records [ex_record] =
     [[(''id'', PInt 1), (''blob'', PStr ''<blob>''), (''name'', PStr ''a'')]]"
proof -
  have h1: "distinct (map fst ex_record)"
    and h2: "list_all (\<lambda>d. distinct (map fst d)) [ex_record]"
    by (simp_all add: ex_record_def)
  from jsonify_replaces_unserializable_fields [OF h1 h2]
  have "jsonify_dict ex_record =
          map (\<lambda>(key, v). (key, if json_dumps_ok v then v else PStr (py_str v))) ex_record"
    and "jsonify_records [ex_record] =
          map (map (\<lambda>(key, v). (key, if json_dumps_ok v then v else PStr (py_str v))))
            [ex_record]"
    by blast+
  then have "jsonify_dict ex_record =
     [(''id'', PInt 1), (''blob'', PStr ''<blob>''), (''name'', PStr ''a'')]"
    and "jsonify_records [ex_record] =
     [[(''id'', PInt 1), (''blob'', PStr ''<blob>''), (''name'', PStr ''a'')]]"
    by (simp_all add: ex_record_def)
  with h1 h2 show ?thesis by blast
qed

section \<open>batch_update_table (C8)\<close>

text \<open>
  C8 fails on the code. The body of the loop calls \<^verbatim>\<open>tab\<close> at line 298, a function of
  helpers.py that sqlalchemy.py never imports: on the first batch the call raises
  NameError before any UPDATE is sent, the block of \<^verbatim>\<open>engine.begin()\<close> rolls back, and
  the store is left as it was. No row is processed and no batch is committed.
\<close>

theorem batch_update_table_name_error:
  "batch_update_table ex_fee_db ''fees'' ex_fee_rows ''id'' 1000 = (Inl NameError, ex_fee_db)"
proof -
  have "ex_fee_db ''fees'' =
      Some \<lparr>tbl_columns = [''id'', ''fee_price'', ''fee_value''],
            tbl_rows = [ex_fee_row 1, ex_fee_row 2]\<rparr>"
    by (simp add: ex_fee_db_def)
  moreover have "ex_fee_rows \<noteq> []" by (simp add: ex_fee_rows_def)
  ultimately show ?thesis
    by (rule batch_update_table_raises_name_error) simp
qed

end
